theory Spec2Isabelle
  imports Main "HOL-Library.Sublist" "HOL-Library.AList"
begin

section \<open>Data model of \<^verbatim>\<open>https_everywhere/adapter.py\<close>\<close>

text \<open>
  The adapters wrap the \<^verbatim>\<open>send\<close> method of \<^verbatim>\<open>requests.adapters.HTTPAdapter\<close>.
  A request is the prepared request handed to \<^verbatim>\<open>send\<close>; only its \<^verbatim>\<open>url\<close> is read or
  written by the adapters, the other fields are carried along untouched.
  The calls of the logger are left out: they change no value and raise nothing.
\<close>

record request =
  url :: string
  http_method :: string
  body :: "string option"

text \<open>
  The exceptions the code distinguishes. Every constructor is a subclass of Python's
  \<^verbatim>\<open>Exception\<close>, so \<^verbatim>\<open>except Exception\<close> catches all of them.
  \<^verbatim>\<open>SSLError\<close> and \<^verbatim>\<open>ConnectTimeout\<close> are subclasses of
  \<^verbatim>\<open>requests.exceptions.ConnectionError\<close>; \<^verbatim>\<open>ReadTimeout\<close> and \<^verbatim>\<open>HTTPError\<close> are not.
\<close>

datatype exn =
    ConnectionError
  | MaxRetryError
  | SSLError
  | ConnectTimeout
  | ReadTimeout
  | HTTPError
  | KeyError string
  | RuntimeError string
  | OtherError string

text \<open>
  \<^verbatim>\<open>requests.Response.headers\<close> is a case-insensitive dictionary: keys are compared after
  \<^verbatim>\<open>str.lower()\<close>. It is an association list keyed by the lowered name.
\<close>

definition lower_char :: "char \<Rightarrow> char" where
  "lower_char c =
     (case map_of (zip ''ABCDEFGHIJKLMNOPQRSTUVWXYZ'' ''abcdefghijklmnopqrstuvwxyz'') c of
        Some d \<Rightarrow> d
      | None \<Rightarrow> c)"

definition lower :: "string \<Rightarrow> string" where
  "lower s = map lower_char s"

type_synonym headers = "(string \<times> string) list"

definition headers_set :: "string \<Rightarrow> string \<Rightarrow> headers \<Rightarrow> headers" where
  "headers_set k v h = AList.update (lower k) v h"

definition headers_get :: "string \<Rightarrow> headers \<Rightarrow> string option" where
  "headers_get k h = map_of h (lower k)"

text \<open>
  The fields of \<^verbatim>\<open>requests.Response\<close> the code touches. \<^verbatim>\<open>status_code\<close> is always
  assigned before it is read.
\<close>

record response =
  headers :: headers
  encoding :: "string option"
  status_code :: int
  reason :: "string option"
  content :: "string option"
  resp_url :: "string option"
  resp_request :: "request option"

text \<open>\<^verbatim>\<open>_REASON = "HTTPS Everywhere"\<close>\<close>

definition REASON :: string where
  "REASON = ''HTTPS Everywhere''"

text \<open>\<^verbatim>\<open>_generate_redirect(location, code=302)\<close>\<close>

definition generate_redirect :: "string \<Rightarrow> int \<Rightarrow> response" where
  "generate_redirect location code =
     \<lparr> headers = headers_set ''Location'' location [],
       encoding = Some ''utf8'',
       status_code = code,
       reason = Some REASON,
       content = Some '''',
       resp_url = None,
       resp_request = None \<rparr>"

text \<open>\<^verbatim>\<open>s.startswith(p)\<close>\<close>

definition startswith :: "string \<Rightarrow> string \<Rightarrow> bool" where
  "startswith s p = prefix p s"

text \<open>
  A \<^verbatim>\<open>send\<close> method: it takes the request and the state of the outside world (the network)
  and returns a response or the exception it raised, with the new state of the world.
\<close>

type_synonym 'w sender = "request \<Rightarrow> 'w \<Rightarrow> (exn + response) \<times> 'w"

section \<open>\<^verbatim>\<open>ForceHTTPSAdapter\<close>\<close>

text \<open>\<^verbatim>\<open>ForceHTTPSAdapter._prevent_https\<close>: the loop over \<^verbatim>\<open>self._https_exclusions\<close>.\<close>

fun prevent_https :: "string list \<Rightarrow> string \<Rightarrow> bool" where
  "prevent_https [] tail = False"
| "prevent_https (rule # rules) tail =
     (if startswith tail rule then True else prevent_https rules tail)"

text \<open>
  The three lines shared by every rewriting branch:
  \<^verbatim>\<open>response = _generate_redirect(location); response.request = request; response.url = request.url\<close>.
\<close>

definition redirect_response :: "string \<Rightarrow> request \<Rightarrow> response" where
  "redirect_response location request =
     (generate_redirect location 302)
       \<lparr> resp_request := Some request, resp_url := Some (url request) \<rparr>"

text \<open>
  \<^verbatim>\<open>ForceHTTPSAdapter.send\<close>; \<^verbatim>\<open>super_send\<close> is \<^verbatim>\<open>super(ForceHTTPSAdapter, self).send\<close>,
  the underlying transport.
\<close>

definition ForceHTTPSAdapter_send :: "string list \<Rightarrow> 'w sender \<Rightarrow> 'w sender" where
  "ForceHTTPSAdapter_send https_exclusions super_send request w =
     (if startswith (url request) ''https://'' then
        (let tail = drop 8 (url request) in
         if prevent_https https_exclusions tail
         then (Inr (redirect_response (''http://'' @ tail) request), w)
         else super_send request w)
      else if startswith (url request) ''http://'' then
        (let tail = drop 7 (url request) in
         if \<not> prevent_https https_exclusions tail
         then (Inr (redirect_response (''https://'' @ tail) request), w)
         else super_send request w)
      else super_send request w)"

section \<open>The rule-based and preload adapters\<close>

text \<open>
  \<^verbatim>\<open>HTTPSEverywhereOnlyAdapter.send\<close>. The module \<^verbatim>\<open>_rules\<close> is not part of the sources at
  hand, so \<^verbatim>\<open>https_url_rewrite\<close> is a parameter: any function from URLs to URLs.
\<close>

definition HTTPSEverywhereOnlyAdapter_send ::
  "(string \<Rightarrow> string) \<Rightarrow> 'w sender \<Rightarrow> 'w sender" where
  "HTTPSEverywhereOnlyAdapter_send https_url_rewrite super_send request w =
     (if startswith (url request) ''http://'' then
        (let u = https_url_rewrite (url request) in
         if startswith u ''https://''
         then (Inr (redirect_response u request), w)
         else super_send request w)
      else super_send request w)"



section \<open>\<^verbatim>\<open>RedirectAdapter\<close>\<close>






section \<open>\<^verbatim>\<open>PreferHTTPSAdapter\<close>\<close>

text \<open>
  \<^verbatim>\<open>requests.head\<close> and \<^verbatim>\<open>requests.get\<close> with \<^verbatim>\<open>allow_redirects=False\<close> and the head
  timeout: a request on the network for a URL.
\<close>

type_synonym 'w fetch = "string \<Rightarrow> 'w \<Rightarrow> (exn + response) \<times> 'w"

text \<open>
  \<^verbatim>\<open>Response.raise_for_status\<close> of requests raises \<^verbatim>\<open>HTTPError\<close> for a status from
  400 to 599, and the truth value of a response is \<^verbatim>\<open>Response.ok\<close>: whether
  \<^verbatim>\<open>raise_for_status\<close> returns.
\<close>

definition raise_for_status :: "response \<Rightarrow> exn + unit" where
  "raise_for_status r =
     (if 400 \<le> status_code r \<and> status_code r < 600 then Inl HTTPError else Inr ())"

definition response_bool :: "response \<Rightarrow> bool" where
  "response_bool r = (case raise_for_status r of Inl e \<Rightarrow> False | Inr u \<Rightarrow> True)"

text \<open>
  The \<^verbatim>\<open>try\<close> block of one iteration of the probe: the HEAD request, and the GET
  request the handler sends when \<^verbatim>\<open>response and response.status_code == 403\<close>.
  The result is the response the \<^verbatim>\<open>else\<close> branch sees, or the exception the outer
  handler catches.
\<close>

definition probe_request :: "'w fetch \<Rightarrow> 'w fetch \<Rightarrow> string \<Rightarrow> 'w \<Rightarrow> (exn + response) \<times> 'w" where
  "probe_request requests_head requests_get current_url w =
     (case requests_head current_url w of
        (Inl e, w1) \<Rightarrow> (Inl e, w1)
      | (Inr response, w1) \<Rightarrow>
          (case raise_for_status response of
             Inr u \<Rightarrow> (Inr response, w1)
           | Inl e \<Rightarrow>
               if response_bool response \<and> status_code response = 403 then
                 (case requests_get current_url w1 of
                    (Inl e2, w2) \<Rightarrow> (Inl e2, w2)
                  | (Inr response2, w2) \<Rightarrow>
                      (case raise_for_status response2 of
                         Inl e2 \<Rightarrow> (Inl e2, w2)
                       | Inr u \<Rightarrow> (Inr response2, w2)))
               else (Inl e, w1)))"

text \<open>What the probe returns: \<^verbatim>\<open>None\<close>, a URL, or the response of the last request.\<close>

datatype probe_value =
    PNone
  | PStr string
  | PResp response

fun of_previous_url :: "string option \<Rightarrow> probe_value" where
  "of_previous_url None = PNone"
| "of_previous_url (Some u) = PStr u"

text \<open>\<^verbatim>\<open>RuntimeError("{} redirected to {}".format(current_url, location))\<close>\<close>

definition redirected_error :: "string \<Rightarrow> string \<Rightarrow> exn" where
  "redirected_error current_url location =
     RuntimeError (current_url @ '' redirected to '' @ location)"

text \<open>
  The \<^verbatim>\<open>while True\<close> loop of \<^verbatim>\<open>_follow_redirects_on_http\<close>, with the loop variables
  \<^verbatim>\<open>previous_url\<close> and \<^verbatim>\<open>url\<close> as arguments. The loop has no bound, so the result is
  an option: \<open>None\<close> when it runs forever.
\<close>

partial_function (option) follow_redirects_loop ::
  "string list \<Rightarrow> 'w fetch \<Rightarrow> 'w fetch \<Rightarrow> string option \<Rightarrow> string \<Rightarrow> 'w \<Rightarrow>
   ((exn + probe_value) \<times> 'w) option" where
  "follow_redirects_loop https_exclusions requests_head requests_get previous_url current_url w =
     (case probe_request requests_head requests_get current_url w of
        (Inl e, w1) \<Rightarrow> Some (Inr (of_previous_url previous_url), w1)
      | (Inr response, w1) \<Rightarrow>
          (case headers_get ''location'' (headers response) of
             None \<Rightarrow> Some (Inr (of_previous_url previous_url), w1)
           | Some location \<Rightarrow>
               if location = '''' \<or> location = current_url then
                 Some (Inr (of_previous_url previous_url), w1)
               else if startswith location ''https:'' then
                 (let tail = drop 8 location in
                  if prevent_https https_exclusions tail
                  then Some (Inr (PStr (''http://'' @ tail)), w1)
                  else Some (Inr (PResp response), w1))
               else if startswith location ''http://'' then
                 follow_redirects_loop https_exclusions requests_head requests_get
                   (Some current_url) location w1
               else
                 Some (Inl (redirected_error current_url location), w1)))"

text \<open>\<^verbatim>\<open>PreferHTTPSAdapter._follow_redirects_on_http(url)\<close>: the loop from \<^verbatim>\<open>previous_url = None\<close>.\<close>

definition follow_redirects_on_http ::
  "string list \<Rightarrow> 'w fetch \<Rightarrow> 'w fetch \<Rightarrow> string \<Rightarrow> 'w \<Rightarrow> ((exn + probe_value) \<times> 'w) option" where
  "follow_redirects_on_http https_exclusions requests_head requests_get u w =
     follow_redirects_loop https_exclusions requests_head requests_get None u w"

text \<open>
  \<^verbatim>\<open>PreferHTTPSAdapter.send\<close>. \<^verbatim>\<open>if redirect\<close> is the truth value of the probe's result:
  false for \<^verbatim>\<open>None\<close> and for the empty string, \<^verbatim>\<open>Response.ok\<close> for a response.
  \<^verbatim>\<open>super(PreferHTTPSAdapter, self).send\<close> is \<^verbatim>\<open>ForceHTTPSAdapter.send\<close>.
\<close>

definition PreferHTTPSAdapter_send ::
  "string list \<Rightarrow> 'w fetch \<Rightarrow> 'w fetch \<Rightarrow> 'w sender \<Rightarrow> request \<Rightarrow> 'w \<Rightarrow>
   ((exn + response) \<times> 'w) option" where
  "PreferHTTPSAdapter_send https_exclusions requests_head requests_get super_send request w =
     (let u = url request in
      if startswith u ''https://'' then
        (let tail = drop 8 u in
         if prevent_https https_exclusions tail
         then Some (Inr (redirect_response (''http://'' @ tail) request), w)
         else Some (ForceHTTPSAdapter_send https_exclusions super_send request w))
      else if startswith u ''http://'' then
        (let tail = drop 7 u in
         if \<not> prevent_https https_exclusions tail then
           (case follow_redirects_on_http https_exclusions requests_head requests_get u w of
              None \<Rightarrow> None
            | Some (Inl e, w1) \<Rightarrow> Some (Inl e, w1)
            | Some (Inr redirect, w1) \<Rightarrow>
                (case redirect of
                   PResp r \<Rightarrow>
                     if response_bool r then Some (Inr r, w1)
                     else Some (Inr (redirect_response (''https://'' @ tail) request), w1)
                 | PStr s \<Rightarrow>
                     if s \<noteq> '''' \<and> s \<noteq> u then
                       (if startswith s ''http://''
                        then Some (Inr (redirect_response (''https://'' @ drop 7 u) request), w1)
                        else Some (Inl (RuntimeError
                               (''Unexpectedly '' @ u @ '' redirected to '' @ s)), w1))
                     else Some (Inr (redirect_response (''https://'' @ tail) request), w1)
                 | PNone \<Rightarrow> Some (Inr (redirect_response (''https://'' @ tail) request), w1)))
         else Some (ForceHTTPSAdapter_send https_exclusions super_send request w))
      else Some (ForceHTTPSAdapter_send https_exclusions super_send request w))"

section \<open>\<^verbatim>\<open>UpgradeHTTPSAdapter\<close> and \<^verbatim>\<open>SafeUpgradeHTTPSAdapter\<close>\<close>

text \<open>
  \<^verbatim>\<open>_https_downgrade_exceptions\<close>: \<^verbatim>\<open>ConnectionError\<close> (with its subclasses),
  \<^verbatim>\<open>MaxRetryError\<close> and \<^verbatim>\<open>SSLError\<close>.
\<close>

fun https_downgrade_exception :: "exn \<Rightarrow> bool" where
  "https_downgrade_exception ConnectionError = True"
| "https_downgrade_exception MaxRetryError = True"
| "https_downgrade_exception SSLError = True"
| "https_downgrade_exception ConnectTimeout = True"
| "https_downgrade_exception e = False"

text \<open>
  These two adapters assign to \<^verbatim>\<open>request.url\<close>, so their \<^verbatim>\<open>send\<close> returns the request
  as it is at the end, next to the result.

  The last two lines of both methods: the request's URL becomes \<^verbatim>\<open>"http://" + request.url[8:]\<close>
  and \<^verbatim>\<open>super(ForceHTTPSAdapter, self).send\<close>, the transport itself, sends it.
\<close>

definition downgrade_send :: "'w sender \<Rightarrow> request \<Rightarrow> 'w \<Rightarrow> (exn + response) \<times> request \<times> 'w" where
  "downgrade_send super_send request w =
     (let request2 = request\<lparr> url := ''http://'' @ drop 8 (url request) \<rparr> in
      case super_send request2 w of (res, w2) \<Rightarrow> (res, request2, w2))"

text \<open>\<^verbatim>\<open>UpgradeHTTPSAdapter.send\<close>\<close>

definition UpgradeHTTPSAdapter_send ::
  "string list \<Rightarrow> 'w sender \<Rightarrow> request \<Rightarrow> 'w \<Rightarrow> (exn + response) \<times> request \<times> 'w" where
  "UpgradeHTTPSAdapter_send https_exclusions super_send request w =
     (if \<not> startswith (url request) ''https://'' then
        (case ForceHTTPSAdapter_send https_exclusions super_send request w of
           (res, w1) \<Rightarrow> (res, request, w1))
      else
        (case ForceHTTPSAdapter_send https_exclusions super_send request w of
           (Inr response, w1) \<Rightarrow> (Inr response, request, w1)
         | (Inl e, w1) \<Rightarrow>
             if https_downgrade_exception e
             then downgrade_send super_send request w1
             else (Inl e, request, w1)))"

text \<open>
  The \<^verbatim>\<open>try\<close> block of \<^verbatim>\<open>SafeUpgradeHTTPSAdapter.send\<close> and what follows it; \<open>u\<close> is the
  local \<^verbatim>\<open>url\<close>, the URL the request had when \<^verbatim>\<open>send\<close> was called.
\<close>

definition safe_upgrade_try ::
  "string list \<Rightarrow> 'w sender \<Rightarrow> string \<Rightarrow> request \<Rightarrow> 'w \<Rightarrow> (exn + response) \<times> request \<times> 'w" where
  "safe_upgrade_try https_exclusions super_send u request w =
     (case ForceHTTPSAdapter_send https_exclusions super_send request w of
        (Inr response, w1) \<Rightarrow>
          (case headers_get ''location'' (headers response) of
             None \<Rightarrow> (Inr response, request, w1)
           | Some redirect \<Rightarrow>
               if redirect = '''' \<or> redirect \<noteq> u
               then (Inr response, request, w1)
               else downgrade_send super_send request w1)
      | (Inl e, w1) \<Rightarrow>
          if https_downgrade_exception e
          then downgrade_send super_send request w1
          else (Inl e, request, w1))"

text \<open>
  \<^verbatim>\<open>SafeUpgradeHTTPSAdapter.send\<close>. \<^verbatim>\<open>response.headers["location"]\<close> raises
  \<^verbatim>\<open>KeyError\<close> when the header is missing.
\<close>

definition SafeUpgradeHTTPSAdapter_send ::
  "string list \<Rightarrow> 'w sender \<Rightarrow> request \<Rightarrow> 'w \<Rightarrow> (exn + response) \<times> request \<times> 'w" where
  "SafeUpgradeHTTPSAdapter_send https_exclusions super_send request w =
     (let u = url request in
      if \<not> startswith u ''https://'' then
        (case ForceHTTPSAdapter_send https_exclusions super_send request w of
           (Inl e, w1) \<Rightarrow> (Inl e, request, w1)
         | (Inr response, w1) \<Rightarrow>
             if reason response \<noteq> Some REASON then (Inr response, request, w1)
             else
               (case headers_get ''location'' (headers response) of
                  None \<Rightarrow> (Inl (KeyError ''location''), request, w1)
                | Some location \<Rightarrow>
                    safe_upgrade_try https_exclusions super_send u
                      (request\<lparr> url := location \<rparr>) w1))
      else safe_upgrade_try https_exclusions super_send u request w)"

section \<open>Concrete requests, transports and networks\<close>

text \<open>
  The values the theorems below are exercised on. The state of the world is the number
  of requests that went out on the network so far.
\<close>

text \<open>A response as a server sends it: reason phrase \<^verbatim>\<open>OK\<close>, the given status and headers.\<close>

definition server_response :: "string \<Rightarrow> int \<Rightarrow> headers \<Rightarrow> response" where
  "server_response u code hs =
     \<lparr> headers = hs, encoding = None, status_code = code, reason = Some ''OK'',
       content = Some '''', resp_url = Some u, resp_request = None \<rparr>"

definition get_request :: "string \<Rightarrow> request" where
  "get_request u = \<lparr> url = u, http_method = ''GET'', body = None \<rparr>"

text \<open>A transport that answers every request with status 200.\<close>

definition plain_transport :: "nat sender" where
  "plain_transport request w = (Inr (server_response (url request) 200 []), Suc w)"

text \<open>A transport that refuses the connection for https URLs and answers http URLs.\<close>

definition https_refusing_transport :: "nat sender" where
  "https_refusing_transport request w =
     (if startswith (url request) ''https://'' then (Inl ConnectionError, Suc w)
      else (Inr (server_response (url request) 200 []), Suc w))"

text \<open>
  A transport whose server answers an https URL with a redirect back to the same URL
  over http.
\<close>

definition http_redirecting_transport :: "nat sender" where
  "http_redirecting_transport request w =
     (if startswith (url request) ''https://'' then
        (Inr (server_response (url request) 301
               (headers_set ''Location'' (''http://'' @ drop 8 (url request)) [])), Suc w)
      else (Inr (server_response (url request) 200 []), Suc w))"

text \<open>
  A transport whose server answers with the reason phrase \<^verbatim>\<open>HTTPS Everywhere\<close> and no
  \<^verbatim>\<open>Location\<close> header.
\<close>

definition sentinel_transport :: "nat sender" where
  "sentinel_transport request w =
     (Inr ((server_response (url request) 200 [])\<lparr> reason := Some REASON \<rparr>), Suc w)"


text \<open>A transport on which every https request runs into a read time-out.\<close>

definition timing_out_transport :: "nat sender" where
  "timing_out_transport request w =
     (if startswith (url request) ''https://'' then (Inl ReadTimeout, Suc w)
      else (Inr (server_response (url request) 200 []), Suc w))"


text \<open>A ruleset with one rule, and a preload list with one domain.\<close>

definition sample_rewrite :: "string \<Rightarrow> string" where
  "sample_rewrite u =
     (if u = ''http://example.com/path'' then ''https://example.com/path'' else u)"



text \<open>Networks for the probe: one where every request times out,\<close>

definition failing_fetch :: "nat fetch" where
  "failing_fetch u w = (Inl ReadTimeout, Suc w)"

text \<open>one where \<^verbatim>\<open>a.com\<close> redirects to \<^verbatim>\<open>b.com\<close>, which redirects to \<^verbatim>\<open>c.com\<close>,\<close>

definition chain_head :: "nat fetch" where
  "chain_head u w =
     (if u = ''http://a.com/'' then
        (Inr (server_response u 301 (headers_set ''Location'' ''http://b.com/'' [])), Suc w)
      else if u = ''http://b.com/'' then
        (Inr (server_response u 301 (headers_set ''Location'' ''http://c.com/'' [])), Suc w)
      else (Inr (server_response u 200 []), Suc w))"


section \<open>Helper facts\<close>

lemma lower_Location: "lower ''Location'' = ''location''"
  by (simp add: lower_def lower_char_def)

lemma lower_location: "lower ''location'' = ''location''"
  by (simp add: lower_def lower_char_def)

lemma headers_get_set_Location:
  "headers_get ''location'' (headers_set ''Location'' v h) = Some v"
  by (simp add: headers_get_def headers_set_def lower_Location lower_location
      update_conv')

lemma headers_get_set_Location_same:
  "headers_get ''Location'' (headers_set ''Location'' v h) = Some v"
  by (simp add: headers_get_def headers_set_def update_conv')

lemma prefix_take_iff: "prefix p s \<longleftrightarrow> take (length p) s = p"
  by (metis prefix_def append_eq_conv_conj append_take_drop_id)

lemma prevent_https_iff:
  "prevent_https rules tail \<longleftrightarrow> (\<exists>rule \<in> set rules. prefix rule tail)"
  by (induction rules) (auto simp: startswith_def)

lemma startswith_https_not_http:
  "startswith u ''https://'' \<Longrightarrow> \<not> startswith u ''http://''"
  by (auto simp: startswith_def prefix_def)

lemma startswith_http_not_https:
  "startswith u ''http://'' \<Longrightarrow> \<not> startswith u ''https://''"
  by (auto simp: startswith_def prefix_def)

lemma redirect_response_Location:
  "headers_get ''Location'' (headers (redirect_response loc req)) = Some loc"
  by (simp add: redirect_response_def generate_redirect_def headers_get_set_Location_same)

lemma redirect_response_location:
  "headers_get ''location'' (headers (redirect_response loc req)) = Some loc"
  by (simp add: redirect_response_def generate_redirect_def headers_get_set_Location)

lemma redirect_response_fields:
  "status_code (redirect_response loc req) = 302"
  "reason (redirect_response loc req) = Some REASON"
  "resp_url (redirect_response loc req) = Some (url req)"
  "resp_request (redirect_response loc req) = Some req"
  "content (redirect_response loc req) = Some ''''"
  by (simp_all add: redirect_response_def generate_redirect_def)

text \<open>The force-scheme layer, case by case.\<close>

lemma Force_upgrade:
  "startswith (url req) ''http://'' \<Longrightarrow> \<not> prevent_https excl (drop 7 (url req)) \<Longrightarrow>
   ForceHTTPSAdapter_send excl tr req w =
     (Inr (redirect_response (''https://'' @ drop 7 (url req)) req), w)"
  by (simp add: ForceHTTPSAdapter_send_def startswith_http_not_https)









text \<open>The probe on the network where \<^verbatim>\<open>a.com\<close> leads to \<^verbatim>\<open>b.com\<close> and on to \<^verbatim>\<open>c.com\<close>.\<close>

lemma chain_probe:
  "follow_redirects_on_http [] chain_head failing_fetch ''http://a.com/'' 0 =
     Some (Inr (PStr ''http://b.com/''), 3)"
  unfolding follow_redirects_on_http_def
  apply (subst follow_redirects_loop.simps)
  apply (simp add: probe_request_def chain_head_def server_response_def raise_for_status_def
      headers_get_def headers_set_def lower_Location lower_location startswith_def)
  apply (subst follow_redirects_loop.simps)
  apply (simp add: probe_request_def chain_head_def server_response_def raise_for_status_def
      headers_get_def headers_set_def lower_Location lower_location startswith_def)
  apply (subst follow_redirects_loop.simps)
  apply (simp add: probe_request_def chain_head_def server_response_def raise_for_status_def
      headers_get_def headers_set_def lower_Location lower_location startswith_def)
  done

section \<open>The exclusion check\<close>

text \<open>
  Claim C7. \<^verbatim>\<open>_prevent_https\<close> returns true exactly when the tail starts with one of
  the configured prefixes, compared character by character: the first
  \<open>length rule\<close> characters of the tail are the rule itself. Nothing is folded or
  normalised: \<^verbatim>\<open>Example.com\<close> does not match the rule \<^verbatim>\<open>example.com\<close>, and
  \<^verbatim>\<open>example.com\<close> does not match the rule \<^verbatim>\<open>example.com/\<close>. Two exclusion lists with
  the same rules, in any order, give the same answer.
\<close>

theorem prevent_https_prefix_match:
  "(prevent_https excl tail \<longleftrightarrow> (\<exists>rule \<in> set excl. take (length rule) tail = rule))
   \<and> \<not> prevent_https [''example.com''] ''Example.com''
   \<and> \<not> prevent_https [''example.com/''] ''example.com''
   \<and> (set excl = set excl2 \<longrightarrow> prevent_https excl tail = prevent_https excl2 tail)"
  by (simp add: prevent_https_iff prefix_take_iff startswith_def)

theorem prevent_https_prefix_match_witness:
  "prevent_https [''a.org'', ''example.com/api''] ''example.com/api/x''
   \<and> prevent_https [''example.com/api'', ''a.org''] ''example.com/api/x''"
  using prevent_https_prefix_match [of "[''a.org'', ''example.com/api'']" "''example.com/api/x''"
     "[''example.com/api'', ''a.org'']"]
  by (simp add: insert_commute startswith_def)

section \<open>\<^verbatim>\<open>ForceHTTPSAdapter.send\<close>\<close>

text \<open>
  Claim C1. With a fixed exclusion list, \<^verbatim>\<open>ForceHTTPSAdapter.send\<close> answers an https
  URL whose tail (the URL after its first 8 characters) is excluded with the synthetic
  redirect to \<^verbatim>\<open>"http://" + tail\<close>, an http URL whose tail (after 7 characters) is not
  excluded with the synthetic redirect to \<^verbatim>\<open>"https://" + tail\<close>, and hands every other
  request to the transport as it is; the result is then the transport's. The synthetic
  redirect carries the target in its \<^verbatim>\<open>Location\<close> header and the sentinel reason.
\<close>

theorem ForceHTTPSAdapter_send_cases:
  "(startswith (url req) ''https://'' \<and> prevent_https excl (drop 8 (url req)) \<longrightarrow>
      ForceHTTPSAdapter_send excl tr req w =
        (Inr (redirect_response (''http://'' @ drop 8 (url req)) req), w))
   \<and> (startswith (url req) ''http://'' \<and> \<not> prevent_https excl (drop 7 (url req)) \<longrightarrow>
      ForceHTTPSAdapter_send excl tr req w =
        (Inr (redirect_response (''https://'' @ drop 7 (url req)) req), w))
   \<and> (\<not> (startswith (url req) ''https://'' \<and> prevent_https excl (drop 8 (url req))) \<and>
       \<not> (startswith (url req) ''http://'' \<and> \<not> prevent_https excl (drop 7 (url req))) \<longrightarrow>
      ForceHTTPSAdapter_send excl tr req w = tr req w)
   \<and> headers_get ''Location'' (headers (redirect_response loc req)) = Some loc
   \<and> reason (redirect_response loc req) = Some REASON"
  by (auto simp: ForceHTTPSAdapter_send_def Let_def redirect_response_Location
      redirect_response_fields dest: startswith_https_not_http)

theorem ForceHTTPSAdapter_send_cases_witness:
  "ForceHTTPSAdapter_send [''example.com/api''] plain_transport
       (get_request ''https://example.com/api/x'') 0 =
     (Inr (redirect_response ''http://example.com/api/x''
             (get_request ''https://example.com/api/x'')), 0)
   \<and> ForceHTTPSAdapter_send [''example.com/api''] plain_transport
       (get_request ''http://example.com/other'') 0 =
     (Inr (redirect_response ''https://example.com/other''
             (get_request ''http://example.com/other'')), 0)
   \<and> ForceHTTPSAdapter_send [''example.com/api''] plain_transport
       (get_request ''http://example.com/api/x'') 0 =
     (Inr (server_response ''http://example.com/api/x'' 200 []), 1)"
  using ForceHTTPSAdapter_send_cases
      [of "get_request ''https://example.com/api/x''" "[''example.com/api'']" plain_transport 0]
    ForceHTTPSAdapter_send_cases
      [of "get_request ''http://example.com/other''" "[''example.com/api'']" plain_transport 0]
    ForceHTTPSAdapter_send_cases
      [of "get_request ''http://example.com/api/x''" "[''example.com/api'']" plain_transport 0]
  by (simp add: get_request_def startswith_def plain_transport_def)

section \<open>\<^verbatim>\<open>HTTPSEverywhereOnlyAdapter.send\<close>\<close>

text \<open>
  Claim C6. For a request whose URL starts with \<^verbatim>\<open>http://\<close> and that the ruleset
  rewrites to a URL starting with \<^verbatim>\<open>https://\<close>, the rule-based adapter returns, without
  calling the next layer, a response whose \<^verbatim>\<open>Location\<close> is the rewritten URL, whose
  status is 302, whose reason is the sentinel and whose \<^verbatim>\<open>url\<close> is the URL of the
  request, not the rewritten one. In every other case the request goes to the next
  layer as it is.
\<close>

theorem HTTPSEverywhereOnlyAdapter_send_rewrite:
  "(startswith (url req) ''http://'' \<and> startswith (rw (url req)) ''https://'' \<longrightarrow>
      HTTPSEverywhereOnlyAdapter_send rw tr req w =
        (Inr (redirect_response (rw (url req)) req), w)
      \<and> headers_get ''Location'' (headers (redirect_response (rw (url req)) req)) =
          Some (rw (url req))
      \<and> status_code (redirect_response (rw (url req)) req) = 302
      \<and> reason (redirect_response (rw (url req)) req) = Some REASON
      \<and> resp_url (redirect_response (rw (url req)) req) = Some (url req))
   \<and> (\<not> startswith (url req) ''http://'' \<or> \<not> startswith (rw (url req)) ''https://'' \<longrightarrow>
      HTTPSEverywhereOnlyAdapter_send rw tr req w = tr req w)"
  by (simp add: HTTPSEverywhereOnlyAdapter_send_def Let_def redirect_response_Location
      redirect_response_fields)

theorem HTTPSEverywhereOnlyAdapter_send_rewrite_witness:
  "HTTPSEverywhereOnlyAdapter_send sample_rewrite plain_transport
       (get_request ''http://example.com/path'') 0 =
     (Inr (redirect_response ''https://example.com/path''
             (get_request ''http://example.com/path'')), 0)
   \<and> resp_url (redirect_response ''https://example.com/path''
        (get_request ''http://example.com/path'')) = Some ''http://example.com/path''
   \<and> HTTPSEverywhereOnlyAdapter_send sample_rewrite plain_transport
       (get_request ''http://other.org/'') 0 =
     (Inr (server_response ''http://other.org/'' 200 []), 1)"
  using HTTPSEverywhereOnlyAdapter_send_rewrite
      [of "get_request ''http://example.com/path''" sample_rewrite plain_transport 0]
    HTTPSEverywhereOnlyAdapter_send_rewrite
      [of "get_request ''http://other.org/''" sample_rewrite plain_transport 0]
  by (simp add: get_request_def startswith_def sample_rewrite_def plain_transport_def)

section \<open>The probe of \<^verbatim>\<open>PreferHTTPSAdapter\<close>\<close>



section \<open>\<^verbatim>\<open>PreferHTTPSAdapter.send\<close>\<close>

text \<open>
  Claim C3. For a request whose URL starts with \<^verbatim>\<open>http://\<close> and is not excluded: when
  the probe returns a string that differs from the URL of the request and starts with
  \<^verbatim>\<open>http://\<close> (it followed a chain of http redirects and then stopped), the adapter
  returns the synthetic redirect whose \<^verbatim>\<open>Location\<close> is \<^verbatim>\<open>"https://"\<close> followed by the
  tail of the URL of the request, not of the URL the probe returned.
\<close>

theorem PreferHTTPSAdapter_send_upgrades_original:
  "startswith (url req) ''http://'' \<and> \<not> prevent_https excl (drop 7 (url req)) \<and>
   follow_redirects_on_http excl rh rg (url req) w = Some (Inr (PStr s), w1) \<and>
   s \<noteq> url req \<and> startswith s ''http://'' \<longrightarrow>
     PreferHTTPSAdapter_send excl rh rg tr req w =
       Some (Inr (redirect_response (''https://'' @ drop 7 (url req)) req), w1)
     \<and> headers_get ''Location''
         (headers (redirect_response (''https://'' @ drop 7 (url req)) req)) =
         Some (''https://'' @ drop 7 (url req))"
proof (intro impI, elim conjE)
  assume http: "startswith (url req) ''http://''"
    and free: "\<not> prevent_https excl (drop 7 (url req))"
    and probe: "follow_redirects_on_http excl rh rg (url req) w = Some (Inr (PStr s), w1)"
    and other: "s \<noteq> url req"
    and s_http: "startswith s ''http://''"
  from http have not_https: "\<not> startswith (url req) ''https://''"
    by (rule startswith_http_not_https)
  from s_http have nonempty: "s \<noteq> []"
    by (auto simp: startswith_def)
  show "PreferHTTPSAdapter_send excl rh rg tr req w =
       Some (Inr (redirect_response (''https://'' @ drop 7 (url req)) req), w1)
     \<and> headers_get ''Location''
         (headers (redirect_response (''https://'' @ drop 7 (url req)) req)) =
         Some (''https://'' @ drop 7 (url req))"
    using http free probe other s_http not_https nonempty
    by (simp add: PreferHTTPSAdapter_send_def Let_def redirect_response_Location)
qed

theorem PreferHTTPSAdapter_send_upgrades_original_witness:
  "PreferHTTPSAdapter_send [] chain_head failing_fetch plain_transport
       (get_request ''http://a.com/'') 0 =
     Some (Inr (redirect_response ''https://a.com/'' (get_request ''http://a.com/'')), 3)"
  using PreferHTTPSAdapter_send_upgrades_original
      [of "get_request ''http://a.com/''" "[]" chain_head failing_fetch 0
        "''http://b.com/''" 3 plain_transport] chain_probe
  by (simp add: get_request_def startswith_def)

section \<open>\<^verbatim>\<open>UpgradeHTTPSAdapter.send\<close>\<close>

text \<open>
  Claim C4. For a request whose URL starts with \<^verbatim>\<open>https://\<close>: when the send of the
  force-scheme layer raises one of the exceptions of \<^verbatim>\<open>_https_downgrade_exceptions\<close>,
  that is a connection error (a connect time-out is one), a max-retry error or an SSL
  error, the URL of the request becomes \<^verbatim>\<open>"http://"\<close> followed by its tail and the
  transport itself sends the changed request, the result being the transport's; any
  other exception, such as a read time-out or an HTTP error, comes out as it is, with
  the request unchanged; a response is returned as it is. For a request whose URL does
  not start with \<^verbatim>\<open>https://\<close> the result is that of the force-scheme layer, a response
  or an exception alike.
\<close>

theorem UpgradeHTTPSAdapter_send_fallback:
  "(startswith (url req) ''https://'' \<and>
    ForceHTTPSAdapter_send excl tr req w = (Inl e, w1) \<and>
    (e = ConnectionError \<or> e = MaxRetryError \<or> e = SSLError \<or> e = ConnectTimeout) \<longrightarrow>
      UpgradeHTTPSAdapter_send excl tr req w =
        (case tr (req\<lparr> url := ''http://'' @ drop 8 (url req) \<rparr>) w1 of
           (res, w2) \<Rightarrow> (res, req\<lparr> url := ''http://'' @ drop 8 (url req) \<rparr>, w2)))
   \<and> (startswith (url req) ''https://'' \<and>
       ForceHTTPSAdapter_send excl tr req w = (Inl e, w1) \<and>
       e \<noteq> ConnectionError \<and> e \<noteq> MaxRetryError \<and> e \<noteq> SSLError \<and> e \<noteq> ConnectTimeout \<longrightarrow>
      UpgradeHTTPSAdapter_send excl tr req w = (Inl e, req, w1))
   \<and> (startswith (url req) ''https://'' \<and>
       ForceHTTPSAdapter_send excl tr req w = (Inr r, w1) \<longrightarrow>
      UpgradeHTTPSAdapter_send excl tr req w = (Inr r, req, w1))
   \<and> (\<not> startswith (url req) ''https://'' \<and>
       ForceHTTPSAdapter_send excl tr req w = (res, w1) \<longrightarrow>
      UpgradeHTTPSAdapter_send excl tr req w = (res, req, w1))
   \<and> (https_downgrade_exception e \<longleftrightarrow>
       e = ConnectionError \<or> e = MaxRetryError \<or> e = SSLError \<or> e = ConnectTimeout)
   \<and> \<not> https_downgrade_exception ReadTimeout
   \<and> \<not> https_downgrade_exception HTTPError
   \<and> \<not> https_downgrade_exception (KeyError k)
   \<and> \<not> https_downgrade_exception (RuntimeError m)
   \<and> \<not> https_downgrade_exception (OtherError m)"
  by (cases e) (simp_all add: UpgradeHTTPSAdapter_send_def downgrade_send_def Let_def)

theorem UpgradeHTTPSAdapter_send_fallback_witness:
  "UpgradeHTTPSAdapter_send [] https_refusing_transport (get_request ''https://x.com/'') 0 =
     (Inr (server_response ''http://x.com/'' 200 []), get_request ''http://x.com/'', 2)
   \<and> UpgradeHTTPSAdapter_send [] timing_out_transport (get_request ''https://x.com/'') 0 =
     (Inl ReadTimeout, get_request ''https://x.com/'', 1)
   \<and> UpgradeHTTPSAdapter_send [''x.com''] timing_out_transport (get_request ''http://x.com/'') 0 =
     (Inr (server_response ''http://x.com/'' 200 []), get_request ''http://x.com/'', 1)"
  using UpgradeHTTPSAdapter_send_fallback
      [where req = "get_request ''https://x.com/''" and excl = "[]"
        and tr = https_refusing_transport and w = 0 and e = ConnectionError and ?w1.0 = 1]
    UpgradeHTTPSAdapter_send_fallback
      [where req = "get_request ''https://x.com/''" and excl = "[]"
        and tr = timing_out_transport and w = 0 and e = ReadTimeout and ?w1.0 = 1]
    UpgradeHTTPSAdapter_send_fallback
      [where req = "get_request ''http://x.com/''" and excl = "[''x.com'']"
        and tr = timing_out_transport and w = 0 and ?w1.0 = 1
        and res = "Inr (server_response ''http://x.com/'' 200 [])"]
  by (simp add: get_request_def startswith_def https_refusing_transport_def
      timing_out_transport_def ForceHTTPSAdapter_send_def)

section \<open>Rewriting twice\<close>




section \<open>URLs that are neither http nor https\<close>



section \<open>Synthetic responses and the header lookup of \<^verbatim>\<open>SafeUpgradeHTTPSAdapter.send\<close>\<close>

text \<open>
  Claim C10, as amended. Every response built by \<^verbatim>\<open>_generate_redirect\<close>, and so every
  synthetic response of an adapter, has the location it was built for under
  \<^verbatim>\<open>Location\<close> (found under \<^verbatim>\<open>location\<close> too, the headers being case-insensitive), the
  sentinel reason and, with the default code, status 302. So in
  \<^verbatim>\<open>SafeUpgradeHTTPSAdapter.send\<close> the lookup \<^verbatim>\<open>response.headers["location"]\<close> succeeds
  on every response the force-scheme layer synthesized: for an http URL that is not
  excluded the adapter goes on with the request's URL set to \<^verbatim>\<open>"https://" + tail\<close>.
  A response with the sentinel reason and no \<^verbatim>\<open>Location\<close>, the one case where the
  lookup fails, can only be a response the transport returned.
\<close>

theorem synthetic_response_has_location:
  "headers_get ''Location'' (headers (generate_redirect loc code)) = Some loc
   \<and> headers_get ''location'' (headers (generate_redirect loc code)) = Some loc
   \<and> reason (generate_redirect loc code) = Some REASON
   \<and> status_code (generate_redirect loc 302) = 302
   \<and> headers_get ''location'' (headers (redirect_response loc req)) = Some loc
   \<and> reason (redirect_response loc req) = Some REASON
   \<and> status_code (redirect_response loc req) = 302
   \<and> (startswith (url req) ''http://'' \<and> \<not> prevent_https excl (drop 7 (url req)) \<longrightarrow>
        SafeUpgradeHTTPSAdapter_send excl tr req w =
          safe_upgrade_try excl tr (url req) (req\<lparr> url := ''https://'' @ drop 7 (url req) \<rparr>) w)
   \<and> (\<not> startswith (url req) ''https://'' \<and>
       ForceHTTPSAdapter_send excl tr req w = (Inr r, w1) \<and> reason r = Some REASON \<and>
       headers_get ''location'' (headers r) = None \<longrightarrow>
        tr req w = (Inr r, w1))"
proof (intro conjI impI; (elim conjE)?)
  assume "startswith (url req) ''http://''" "\<not> prevent_https excl (drop 7 (url req))"
  then show "SafeUpgradeHTTPSAdapter_send excl tr req w =
      safe_upgrade_try excl tr (url req) (req\<lparr> url := ''https://'' @ drop 7 (url req) \<rparr>) w"
    by (simp add: SafeUpgradeHTTPSAdapter_send_def Let_def Force_upgrade
        startswith_http_not_https redirect_response_location redirect_response_fields)
next
  assume "\<not> startswith (url req) ''https://''"
    and "ForceHTTPSAdapter_send excl tr req w = (Inr r, w1)"
    and "reason r = Some REASON"
    and "headers_get ''location'' (headers r) = None"
  then show "tr req w = (Inr r, w1)"
    by (auto simp: ForceHTTPSAdapter_send_def Let_def redirect_response_location
        split: if_splits)
qed (simp_all add: generate_redirect_def headers_get_set_Location
    headers_get_set_Location_same redirect_response_location redirect_response_fields)

theorem synthetic_response_has_location_witness:
  "SafeUpgradeHTTPSAdapter_send [] plain_transport (get_request ''http://example.com/'') 0 =
     (Inr (server_response ''https://example.com/'' 200 []),
      get_request ''https://example.com/'', 1)"
  using synthetic_response_has_location
      [where req = "get_request ''http://example.com/''" and excl = "[]"
        and tr = plain_transport and w = 0]
  by (simp add: get_request_def startswith_def plain_transport_def server_response_def
      safe_upgrade_try_def ForceHTTPSAdapter_send_def headers_get_def)

text \<open>
  The claim as it was stated, that the lookup can never fail, is false: for the excluded
  URL \<^verbatim>\<open>http://example.com/\<close> the force-scheme layer hands the request to the transport,
  and when the server answers with the reason phrase \<^verbatim>\<open>HTTPS Everywhere\<close> and no
  \<^verbatim>\<open>Location\<close> header, the lookup raises \<^verbatim>\<open>KeyError\<close>.
\<close>

theorem SafeUpgradeHTTPSAdapter_send_KeyError:
  "SafeUpgradeHTTPSAdapter_send [''example.com''] sentinel_transport
       (get_request ''http://example.com/'') 0 =
     (Inl (KeyError ''location''), get_request ''http://example.com/'', 1)"
  by (simp add: SafeUpgradeHTTPSAdapter_send_def ForceHTTPSAdapter_send_def
      sentinel_transport_def get_request_def startswith_def server_response_def
      headers_get_def)

section \<open>\<^verbatim>\<open>SafeUpgradeHTTPSAdapter.send\<close>\<close>

text \<open>
  Claim C5. For a request whose URL does not start with \<^verbatim>\<open>https://\<close>: when the first
  send of the force-scheme layer returns a response with the sentinel reason and a
  \<^verbatim>\<open>Location\<close>, the adapter sets the URL of the request to that \<^verbatim>\<open>Location\<close> and sends it
  once more through the force-scheme layer, before any fallback. What follows depends
  on this second send alone:
  when it returns a response whose \<^verbatim>\<open>Location\<close> equals the URL the request had at
  first, or when it raises a connection error, a max-retry error or an SSL error, the
  URL of the request becomes \<^verbatim>\<open>"http://"\<close> followed by the tail of the URL just sent
  (all after its first 8 characters) and the transport itself sends the request, the
  result being the transport's, the same in both cases;
  when it returns a response with another \<^verbatim>\<open>Location\<close> or none, that response is the
  result; any other exception comes out as it is.
  The URL of a request is not empty.

  In particular, for an http URL that is not excluded the first response is the
  synthetic upgrade: the request is sent to the transport with the URL
  \<^verbatim>\<open>"https://" + tail\<close>, and when the answer redirects back to the URL the request had
  at first, or the transport fails with one of the three kinds of error, the transport
  is given the request with that first URL again.
\<close>

theorem SafeUpgradeHTTPSAdapter_send_follow_then_fallback:
  "(\<not> startswith (url req) ''https://'' \<and>
    ForceHTTPSAdapter_send excl tr req w = (Inr r1, w1) \<and> reason r1 = Some REASON \<and>
    headers_get ''location'' (headers r1) = Some loc \<longrightarrow>
     (ForceHTTPSAdapter_send excl tr (req\<lparr> url := loc \<rparr>) w1 = (Inr r2, w2) \<and>
      headers_get ''location'' (headers r2) = Some (url req) \<and> url req \<noteq> '''' \<longrightarrow>
        SafeUpgradeHTTPSAdapter_send excl tr req w =
          (case tr (req\<lparr> url := ''http://'' @ drop 8 loc \<rparr>) w2 of
             (res, w3) \<Rightarrow> (res, req\<lparr> url := ''http://'' @ drop 8 loc \<rparr>, w3)))
     \<and> (ForceHTTPSAdapter_send excl tr (req\<lparr> url := loc \<rparr>) w1 = (Inl e, w2) \<and>
        (e = ConnectionError \<or> e = MaxRetryError \<or> e = SSLError \<or> e = ConnectTimeout) \<longrightarrow>
        SafeUpgradeHTTPSAdapter_send excl tr req w =
          (case tr (req\<lparr> url := ''http://'' @ drop 8 loc \<rparr>) w2 of
             (res, w3) \<Rightarrow> (res, req\<lparr> url := ''http://'' @ drop 8 loc \<rparr>, w3)))
     \<and> (ForceHTTPSAdapter_send excl tr (req\<lparr> url := loc \<rparr>) w1 = (Inr r2, w2) \<and>
        headers_get ''location'' (headers r2) \<noteq> Some (url req) \<longrightarrow>
        SafeUpgradeHTTPSAdapter_send excl tr req w = (Inr r2, req\<lparr> url := loc \<rparr>, w2))
     \<and> (ForceHTTPSAdapter_send excl tr (req\<lparr> url := loc \<rparr>) w1 = (Inl e, w2) \<and>
        e \<noteq> ConnectionError \<and> e \<noteq> MaxRetryError \<and> e \<noteq> SSLError \<and> e \<noteq> ConnectTimeout \<longrightarrow>
        SafeUpgradeHTTPSAdapter_send excl tr req w = (Inl e, req\<lparr> url := loc \<rparr>, w2)))
   \<and> (startswith (url req) ''http://'' \<and> \<not> prevent_https excl (drop 7 (url req)) \<longrightarrow>
     ForceHTTPSAdapter_send excl tr req w =
       (Inr (redirect_response (''https://'' @ drop 7 (url req)) req), w)
     \<and> (tr (req\<lparr> url := ''https://'' @ drop 7 (url req) \<rparr>) w = (Inr r2, w2) \<and>
        headers_get ''location'' (headers r2) = Some (url req) \<longrightarrow>
        SafeUpgradeHTTPSAdapter_send excl tr req w =
          (case tr (req\<lparr> url := ''http://'' @ drop 7 (url req) \<rparr>) w2 of
             (res, w3) \<Rightarrow> (res, req\<lparr> url := ''http://'' @ drop 7 (url req) \<rparr>, w3)))
     \<and> (tr (req\<lparr> url := ''https://'' @ drop 7 (url req) \<rparr>) w = (Inl e, w2) \<and>
        (e = ConnectionError \<or> e = MaxRetryError \<or> e = SSLError \<or> e = ConnectTimeout) \<longrightarrow>
        SafeUpgradeHTTPSAdapter_send excl tr req w =
          (case tr (req\<lparr> url := ''http://'' @ drop 7 (url req) \<rparr>) w2 of
             (res, w3) \<Rightarrow> (res, req\<lparr> url := ''http://'' @ drop 7 (url req) \<rparr>, w3)))
     \<and> ''http://'' @ drop 7 (url req) = url req)"
proof (intro conjI impI)
  assume first: "\<not> startswith (url req) ''https://'' \<and>
    ForceHTTPSAdapter_send excl tr req w = (Inr r1, w1) \<and> reason r1 = Some REASON \<and>
    headers_get ''location'' (headers r1) = Some loc"
  {
    assume "ForceHTTPSAdapter_send excl tr (req\<lparr> url := loc \<rparr>) w1 = (Inr r2, w2) \<and>
      headers_get ''location'' (headers r2) = Some (url req) \<and> url req \<noteq> ''''"
    with first show "SafeUpgradeHTTPSAdapter_send excl tr req w =
          (case tr (req\<lparr> url := ''http://'' @ drop 8 loc \<rparr>) w2 of
             (res, w3) \<Rightarrow> (res, req\<lparr> url := ''http://'' @ drop 8 loc \<rparr>, w3))"
      by (simp add: SafeUpgradeHTTPSAdapter_send_def safe_upgrade_try_def downgrade_send_def
          Let_def)
  next
    assume "ForceHTTPSAdapter_send excl tr (req\<lparr> url := loc \<rparr>) w1 = (Inl e, w2) \<and>
        (e = ConnectionError \<or> e = MaxRetryError \<or> e = SSLError \<or> e = ConnectTimeout)"
    with first show "SafeUpgradeHTTPSAdapter_send excl tr req w =
          (case tr (req\<lparr> url := ''http://'' @ drop 8 loc \<rparr>) w2 of
             (res, w3) \<Rightarrow> (res, req\<lparr> url := ''http://'' @ drop 8 loc \<rparr>, w3))"
      by (auto simp: SafeUpgradeHTTPSAdapter_send_def safe_upgrade_try_def downgrade_send_def
          Let_def)
  next
    assume "ForceHTTPSAdapter_send excl tr (req\<lparr> url := loc \<rparr>) w1 = (Inr r2, w2) \<and>
        headers_get ''location'' (headers r2) \<noteq> Some (url req)"
    with first show "SafeUpgradeHTTPSAdapter_send excl tr req w = (Inr r2, req\<lparr> url := loc \<rparr>, w2)"
      by (auto simp: SafeUpgradeHTTPSAdapter_send_def safe_upgrade_try_def Let_def
          split: option.splits)
  next
    assume "ForceHTTPSAdapter_send excl tr (req\<lparr> url := loc \<rparr>) w1 = (Inl e, w2) \<and>
        e \<noteq> ConnectionError \<and> e \<noteq> MaxRetryError \<and> e \<noteq> SSLError \<and> e \<noteq> ConnectTimeout"
    with first show "SafeUpgradeHTTPSAdapter_send excl tr req w = (Inl e, req\<lparr> url := loc \<rparr>, w2)"
      by (cases e)
        (simp_all add: SafeUpgradeHTTPSAdapter_send_def safe_upgrade_try_def Let_def)
  }
next
  assume synth: "startswith (url req) ''http://'' \<and> \<not> prevent_https excl (drop 7 (url req))"
  then have not_https: "\<not> startswith (url req) ''https://''"
    by (simp add: startswith_http_not_https)
  from synth have whole: "''http://'' @ drop 7 (url req) = url req"
    by (auto simp: startswith_def prefix_def)
  from synth have nonempty: "url req \<noteq> ''''"
    by (auto simp: startswith_def)
  from synth have force: "ForceHTTPSAdapter_send excl tr req w =
       (Inr (redirect_response (''https://'' @ drop 7 (url req)) req), w)"
    by (simp add: Force_upgrade)
  have second: "ForceHTTPSAdapter_send excl tr (req\<lparr> url := ''https://'' @ drop 7 (url req) \<rparr>) w =
      tr (req\<lparr> url := ''https://'' @ drop 7 (url req) \<rparr>) w"
    using synth by (simp add: ForceHTTPSAdapter_send_def startswith_def)
  have send: "SafeUpgradeHTTPSAdapter_send excl tr req w =
      safe_upgrade_try excl tr (url req) (req\<lparr> url := ''https://'' @ drop 7 (url req) \<rparr>) w"
    using synth not_https force
    by (simp add: SafeUpgradeHTTPSAdapter_send_def Let_def redirect_response_location
        redirect_response_fields)
  show "ForceHTTPSAdapter_send excl tr req w =
       (Inr (redirect_response (''https://'' @ drop 7 (url req)) req), w)"
    by (rule force)
  show "''http://'' @ drop 7 (url req) = url req"
    by (rule whole)
  {
    assume "tr (req\<lparr> url := ''https://'' @ drop 7 (url req) \<rparr>) w = (Inr r2, w2) \<and>
        headers_get ''location'' (headers r2) = Some (url req)"
    with send second nonempty show "SafeUpgradeHTTPSAdapter_send excl tr req w =
          (case tr (req\<lparr> url := ''http://'' @ drop 7 (url req) \<rparr>) w2 of
             (res, w3) \<Rightarrow> (res, req\<lparr> url := ''http://'' @ drop 7 (url req) \<rparr>, w3))"
      by (simp add: safe_upgrade_try_def downgrade_send_def Let_def)
  next
    assume "tr (req\<lparr> url := ''https://'' @ drop 7 (url req) \<rparr>) w = (Inl e, w2) \<and>
        (e = ConnectionError \<or> e = MaxRetryError \<or> e = SSLError \<or> e = ConnectTimeout)"
    with send second show "SafeUpgradeHTTPSAdapter_send excl tr req w =
          (case tr (req\<lparr> url := ''http://'' @ drop 7 (url req) \<rparr>) w2 of
             (res, w3) \<Rightarrow> (res, req\<lparr> url := ''http://'' @ drop 7 (url req) \<rparr>, w3))"
      by (auto simp: safe_upgrade_try_def downgrade_send_def Let_def)
  }
qed

theorem SafeUpgradeHTTPSAdapter_send_follow_then_fallback_witness:
  "SafeUpgradeHTTPSAdapter_send [] http_redirecting_transport (get_request ''http://x.com/'') 0 =
     (Inr (server_response ''http://x.com/'' 200 []), get_request ''http://x.com/'', 2)
   \<and> SafeUpgradeHTTPSAdapter_send [] https_refusing_transport (get_request ''http://x.com/'') 0 =
     (Inr (server_response ''http://x.com/'' 200 []), get_request ''http://x.com/'', 2)
   \<and> SafeUpgradeHTTPSAdapter_send [] timing_out_transport (get_request ''http://x.com/'') 0 =
     (Inl ReadTimeout, get_request ''https://x.com/'', 1)"
  using SafeUpgradeHTTPSAdapter_send_follow_then_fallback
      [where req = "get_request ''http://x.com/''" and excl = "[]"
        and tr = http_redirecting_transport and w = 0 and ?w1.0 = 0 and ?w2.0 = 1
        and ?r1.0 = "redirect_response ''https://x.com/'' (get_request ''http://x.com/'')"
        and loc = "''https://x.com/''"
        and ?r2.0 = "server_response ''https://x.com/'' 301
                      (headers_set ''Location'' ''http://x.com/'' [])"]
    SafeUpgradeHTTPSAdapter_send_follow_then_fallback
      [where req = "get_request ''http://x.com/''" and excl = "[]"
        and tr = https_refusing_transport and w = 0 and ?w1.0 = 0 and ?w2.0 = 1
        and ?r1.0 = "redirect_response ''https://x.com/'' (get_request ''http://x.com/'')"
        and loc = "''https://x.com/''" and e = ConnectionError]
    SafeUpgradeHTTPSAdapter_send_follow_then_fallback
      [where req = "get_request ''http://x.com/''" and excl = "[]"
        and tr = timing_out_transport and w = 0 and ?w1.0 = 0 and ?w2.0 = 1
        and ?r1.0 = "redirect_response ''https://x.com/'' (get_request ''http://x.com/'')"
        and loc = "''https://x.com/''" and e = ReadTimeout]
  by (simp add: get_request_def startswith_def http_redirecting_transport_def
      https_refusing_transport_def timing_out_transport_def ForceHTTPSAdapter_send_def
      server_response_def redirect_response_location redirect_response_fields
      headers_get_set_Location)

end
